theory Spec2Isabelle
  imports Complex_Main
begin

section \<open>The carousel animation\<close>

text \<open>
  The carousel code of \<^verbatim>\<open>src/static/js/main.js\<close> (lines 56 to 125) and of
  \<^verbatim>\<open>src/unnamed/part_000\<close> (lines 83 to 152) is the same text, so one embedding
  serves both versions. JavaScript numbers are modelled as real numbers: the rounding of
  IEEE doubles, the infinities and NaN are not modelled.
\<close>

datatype css_transform = TranslateX_px real

text \<open>
  The variables that the closures \<^verbatim>\<open>step\<close>, the resize listener and the two hover
  listeners share, with the inline style \<^verbatim>\<open>track.style.transform\<close> (\<open>None\<close> while the
  script has not written it) and the number of calls of \<^verbatim>\<open>requestAnimationFrame\<close>.
\<close>

record carousel =
  offset :: real
  speed :: real
  lastTime :: real
  halfWidth :: real
  transform :: "css_transform option"
  frames_requested :: nat

text \<open>
  \<^verbatim>\<open>getHalfWidth\<close>: the argument lists, for every \<^verbatim>\<open>.carousel-item\<close> of the track in
  document order, the width of its bounding rectangle and its right margin as
  \<^verbatim>\<open>parseFloat\<close> reads it. The loop runs over the indices \<open>i\<close> with \<open>i < length / 2\<close>,
  the division being the real one: an odd length includes the middle item.
\<close>

definition getHalfWidth :: "(real \<times> real) list \<Rightarrow> real" where
  "getHalfWidth items =
     foldl (\<lambda>half (w, m). half + (w + m)) 0 (take ((length items + 1) div 2) items)"

definition step :: "real \<Rightarrow> carousel \<Rightarrow> carousel" where
  "step now c =
     (let dt = (now - lastTime c) / 1000;
          advanced = offset c - speed c * dt;
          wrapped = (if \<bar>advanced\<bar> \<ge> halfWidth c then advanced + halfWidth c else advanced)
      in c\<lparr>lastTime := now,
            offset := wrapped,
            transform := Some (TranslateX_px wrapped),
            frames_requested := Suc (frames_requested c)\<rparr>)"

text \<open>The events that reach the carousel once it is set up.\<close>

datatype carousel_event =
    Frame real
  | Resize "(real \<times> real) list"
  | MouseEnter
  | MouseLeave

fun handle :: "carousel \<Rightarrow> carousel_event \<Rightarrow> carousel" where
  "handle c (Frame now) = step now c"
| "handle c (Resize items) = c\<lparr>halfWidth := getHalfWidth items\<rparr>"
| "handle c MouseEnter = c\<lparr>speed := 0\<rparr>"
| "handle c MouseLeave = c\<lparr>speed := 40\<rparr>"

definition run :: "carousel \<Rightarrow> carousel_event list \<Rightarrow> carousel" where
  "run c evs = foldl handle c evs"

text \<open>
  The state in which the setup leaves the variables: \<open>t0\<close> is the value of
  \<^verbatim>\<open>performance.now()\<close>, \<open>items\<close> the measurements of the first \<^verbatim>\<open>getHalfWidth()\<close>;
  the setup requests the first animation frame.
\<close>

definition carousel_init :: "real \<Rightarrow> (real \<times> real) list \<Rightarrow> carousel" where
  "carousel_init t0 items =
     \<lparr>offset = 0, speed = 40, lastTime = t0, halfWidth = getHalfWidth items,
      transform = None, frames_requested = 1\<rparr>"


section \<open>The carousel setup\<close>

record img_el =
  src :: string
  alt :: string

record div_el =
  className :: string
  children :: "img_el list"

text \<open>
  The element \<^verbatim>\<open>#carouselTrack\<close>: its child elements in document order and the event
  types for which the script has added a listener to it.
\<close>

record track_el =
  child_items :: "div_el list"
  listeners :: "string list"

text \<open>
  What the setup reads and writes: the global \<^verbatim>\<open>window.CAROUSEL_IMAGES\<close> (\<open>None\<close> when
  the hosting page does not define it), the track (\<open>None\<close> when \<^verbatim>\<open>getElementById\<close>
  returns null), the event types with a listener on \<^verbatim>\<open>window\<close>, and the variables of
  the animation once it exists.
\<close>

record carousel_page =
  CAROUSEL_IMAGES :: "string list option"
  track :: "track_el option"
  window_listeners :: "string list"
  animation :: "carousel option"

text \<open>The body of the \<^verbatim>\<open>forEach\<close> callback: one item with one image, appended to the track.\<close>

definition make_item :: "string \<Rightarrow> div_el" where
  "make_item s =
     \<lparr>className = ''carousel-item'', children = [\<lparr>src = s, alt = ''Carousel image''\<rparr>]\<rparr>"

definition append_item :: "track_el \<Rightarrow> string \<Rightarrow> track_el" where
  "append_item t s = t\<lparr>child_items := child_items t @ [make_item s]\<rparr>"

text \<open>
  The setup block. \<open>t0\<close> is \<^verbatim>\<open>performance.now()\<close>; \<open>layout\<close> is the layout engine of the
  browser: from the children of the track to the measurements that \<^verbatim>\<open>getHalfWidth\<close>
  reads off its \<^verbatim>\<open>.carousel-item\<close> elements.
\<close>

definition carousel_setup ::
    "real \<Rightarrow> (div_el list \<Rightarrow> (real \<times> real) list) \<Rightarrow> carousel_page \<Rightarrow> carousel_page" where
  "carousel_setup t0 layout p =
     (let images = (case CAROUSEL_IMAGES p of None \<Rightarrow> [] | Some xs \<Rightarrow> xs)
      in case track p of
           None \<Rightarrow> p
         | Some t \<Rightarrow>
             if length images = 0 then p
             else
               let imageList = images @ images;
                   t1 = foldl append_item t imageList;
                   c = carousel_init t0 (layout (child_items t1));
                   t2 = t1\<lparr>listeners := listeners t1 @ [''mouseenter'', ''mouseleave'']\<rparr>
               in p\<lparr>track := Some t2,
                     window_listeners := window_listeners p @ [''resize''],
                     animation := Some c\<rparr>)"

section \<open>The page: sidebar, navigation links, scrolling\<close>

datatype js_error = TypeError | SyntaxError

text \<open>
  A handler either returns or throws; what it changed before throwing stays changed, so
  both outcomes carry the state.
\<close>

datatype 'a outcome = Returned 'a | Threw js_error 'a

fun page_of :: "'a outcome \<Rightarrow> 'a" where
  "page_of (Returned s) = s"
| "page_of (Threw e s) = s"

fun thrown :: "'a outcome \<Rightarrow> js_error option" where
  "thrown (Returned s) = None"
| "thrown (Threw e s) = Some e"

text \<open>
  The answer of \<^verbatim>\<open>document.querySelector\<close>: a SyntaxError for a string that is no
  selector, null, or an element, given by the distance of its top edge from the top of the
  document (which scrolling does not change).
\<close>

datatype query_result = Invalid_selector | No_match | Match real

text \<open>
  The element \<^verbatim>\<open>#sidebar\<close>: the \<^verbatim>\<open>position\<close> of its computed style, the width and
  height of its bounding rectangle, its class list, and whether it contains a
  \<^verbatim>\<open>.nav-link\<close>.
\<close>

record sidebar_el =
  position :: string
  rect_width :: real
  rect_height :: real
  classList :: "string list"
  has_nav_link :: bool

text \<open>
  The scroll calls that the script makes, with the value it passes: \<^verbatim>\<open>window.scrollTo\<close>
  with its \<^verbatim>\<open>top\<close>, \<^verbatim>\<open>window.scrollBy\<close> with its \<^verbatim>\<open>top\<close>, each with the
  \<^verbatim>\<open>behavior\<close> (\<open>Auto\<close> when the call names none), and \<^verbatim>\<open>scrollIntoView\<close> with
  \<^verbatim>\<open>behavior: 'smooth'\<close> and \<^verbatim>\<open>block: 'start'\<close> on an element, given by the distance of its
  top from the top of the document.
\<close>

datatype behavior = Smooth | Auto

datatype scroll_request =
    ScrollTo real behavior
  | ScrollBy real behavior
  | ScrollIntoView real

text \<open>A pending \<^verbatim>\<open>setTimeout\<close>: the delay in milliseconds and what its callback captured.\<close>

record timer =
  delay :: nat
  by_offset :: real
  hash :: string

record page =
  sidebar :: "sidebar_el option"
  sidebarToggle :: bool
  querySelector :: "string \<Rightarrow> query_result"
  innerWidth :: real
  scrollY :: real
  scroll_max :: real
  smooth_target :: "real option"
  requests :: "scroll_request list"
  scrollBy_accepts_options :: bool
  has_replaceState :: bool
  location_hash :: string
  timers :: "timer list"
  console :: "string list"
  default_prevented :: bool
  first_link_focused :: bool

text \<open>The click event: whether \<^verbatim>\<open>e.currentTarget\<close> is set, and the link's \<^verbatim>\<open>href\<close> attribute.\<close>

record click =
  currentTarget :: bool
  href :: "string option"

subsection \<open>The browser\<close>

text \<open>
  The page keeps its scroll position \<open>scrollY\<close>, the largest position \<open>scroll_max\<close> that
  the document allows, the destination \<open>smooth_target\<close> of a smooth scroll that is under
  way, and the list \<open>requests\<close> of the scroll calls made so far.
  \<^verbatim>\<open>getBoundingClientRect().top\<close> of an element is relative to the viewport.
\<close>

definition rect_top :: "page \<Rightarrow> real \<Rightarrow> real" where
  "rect_top st doc_top = doc_top - scrollY st"

text \<open>The browser keeps every scroll position between 0 and the end of the document.\<close>

definition clamp_scroll :: "page \<Rightarrow> real \<Rightarrow> real" where
  "clamp_scroll st y = max 0 (min (scroll_max st) y)"

text \<open>
  A scroll to position \<open>y\<close> replaces a smooth scroll that is under way. A smooth one only
  sets the destination, and the page moves there afterwards; any other one moves the page
  at once.
\<close>

definition start_scroll :: "behavior \<Rightarrow> real \<Rightarrow> page \<Rightarrow> page" where
  "start_scroll b y st =
     (case b of
        Smooth \<Rightarrow> st\<lparr>smooth_target := Some (clamp_scroll st y)\<rparr>
      | Auto \<Rightarrow> st\<lparr>scrollY := clamp_scroll st y, smooth_target := None\<rparr>)"

definition scrollTo :: "real \<Rightarrow> behavior \<Rightarrow> page \<Rightarrow> page" where
  "scrollTo y b st = start_scroll b y (st\<lparr>requests := requests st @ [ScrollTo y b]\<rparr>)"

text \<open>\<^verbatim>\<open>scrollBy\<close> is relative to the position that the page has when it is called.\<close>

definition scrollBy :: "real \<Rightarrow> behavior \<Rightarrow> page \<Rightarrow> page" where
  "scrollBy d b st =
     start_scroll b (scrollY st + d) (st\<lparr>requests := requests st @ [ScrollBy d b]\<rparr>)"

text \<open>\<^verbatim>\<open>scrollIntoView\<close> with \<^verbatim>\<open>block: 'start'\<close> heads for the element's top at the viewport's top.\<close>

definition scrollIntoView :: "real \<Rightarrow> page \<Rightarrow> page" where
  "scrollIntoView doc_top st =
     start_scroll Smooth (scrollY st + rect_top st doc_top)
       (st\<lparr>requests := requests st @ [ScrollIntoView doc_top]\<rparr>)"

text \<open>
  What the browser does between the calls of the script. \<open>progress p\<close>: a smooth scroll
  under way has brought the page to the position \<open>p\<close>, somewhere between where it was and
  the destination. \<open>arrive\<close>: the smooth scroll has arrived.
\<close>

definition progress :: "real \<Rightarrow> page \<Rightarrow> page" where
  "progress p st =
     (case smooth_target st of
        None \<Rightarrow> st
      | Some d \<Rightarrow>
          if (scrollY st \<le> p \<and> p \<le> d) \<or> (d \<le> p \<and> p \<le> scrollY st)
          then st\<lparr>scrollY := p\<rparr> else st)"

definition arrive :: "page \<Rightarrow> page" where
  "arrive st =
     (case smooth_target st of
        None \<Rightarrow> st
      | Some d \<Rightarrow> st\<lparr>scrollY := d, smooth_target := None\<rparr>)"

text \<open>The media query \<^verbatim>\<open>(max-width: N px)\<close> matches a viewport at most \<open>N\<close> pixels wide.\<close>

definition matchMedia_max_width :: "real \<Rightarrow> page \<Rightarrow> bool" where
  "matchMedia_max_width px st = (innerWidth st \<le> px)"

subsection \<open>The class list\<close>

definition contains :: "string list \<Rightarrow> string \<Rightarrow> bool" where
  "contains cl tok = (tok \<in> set cl)"

definition remove_token :: "string list \<Rightarrow> string \<Rightarrow> string list" where
  "remove_token cl tok = removeAll tok cl"

definition toggle :: "string list \<Rightarrow> string \<Rightarrow> string list" where
  "toggle cl tok = (if contains cl tok then remove_token cl tok else cl @ [tok])"

text \<open>Whether the sidebar carries the class \<^verbatim>\<open>open\<close>; a page without sidebar has none that does.\<close>

definition is_open :: "page \<Rightarrow> bool" where
  "is_open st = (case sidebar st of None \<Rightarrow> False | Some sb \<Rightarrow> contains (classList sb) ''open'')"

text \<open>
  The last statement of both click handlers (\<^verbatim>\<open>main.js\<close> line 43, \<^verbatim>\<open>part_000\<close>
  line 61): close the sidebar if it is open.
\<close>

definition close_sidebar :: "page \<Rightarrow> page" where
  "close_sidebar st =
     (case sidebar st of
        None \<Rightarrow> st
      | Some sb \<Rightarrow>
          if contains (classList sb) ''open''
          then st\<lparr>sidebar := Some (sb\<lparr>classList := remove_token (classList sb) ''open''\<rparr>)\<rparr>
          else st)"

subsection \<open>The click handler of \<^verbatim>\<open>src/static/js/main.js\<close>\<close>

text \<open>Lines 24 to 33: the offset, and the test whether the sidebar spans the top of the page.\<close>

definition isTopBar_main :: "sidebar_el \<Rightarrow> page \<Rightarrow> bool" where
  "isTopBar_main sb st = (position sb = ''fixed'' \<and> rect_width sb \<ge> innerWidth st - 1)"

definition offset_main :: "page \<Rightarrow> real" where
  "offset_main st =
     (case sidebar st of
        None \<Rightarrow> 12
      | Some sb \<Rightarrow> if isTopBar_main sb st then rect_height sb + 8 else 12)"

text \<open>
  Lines 16 to 44. \<^verbatim>\<open>getAttribute\<close> returns null for a link without \<^verbatim>\<open>href\<close>, which
  \<^verbatim>\<open>querySelector\<close> reads as the selector \<^verbatim>\<open>null\<close>.
\<close>

definition nav_link_click_main :: "click \<Rightarrow> page \<Rightarrow> page outcome" where
  "nav_link_click_main e st =
     (let st1 = st\<lparr>default_prevented := True\<rparr>;
          sel = (case href e of None \<Rightarrow> ''null'' | Some h \<Rightarrow> h)
      in case querySelector st1 sel of
           Invalid_selector \<Rightarrow> Threw SyntaxError st1
         | No_match \<Rightarrow> Returned st1
         | Match doc_top \<Rightarrow>
             let off = offset_main st1;
                 scrollTarget = scrollY st1 + rect_top st1 doc_top - off
             in Returned (close_sidebar (scrollTo scrollTarget Smooth st1)))"

subsection \<open>The click handler of \<^verbatim>\<open>src/unnamed/part_000\<close>\<close>

definition getSidebarAndOffset :: "page \<Rightarrow> sidebar_el option \<times> real" where
  "getSidebarAndOffset st =
     (case sidebar st of
        None \<Rightarrow> (None, 12)
      | Some sb \<Rightarrow>
          (Some sb, if matchMedia_max_width 640 st then rect_height sb + 8 else 12))"

text \<open>
  The callback of the timer (lines 47 to 58), run on the page as it is when the timer
  fires: \<^verbatim>\<open>scrollBy\<close>, or \<^verbatim>\<open>scrollTo\<close> where \<^verbatim>\<open>scrollBy\<close> throws, then the hash.
\<close>

definition fire :: "timer \<Rightarrow> page \<Rightarrow> page" where
  "fire t st =
     (let st1 = (if scrollBy_accepts_options st then scrollBy (- by_offset t) Smooth st
                 else scrollTo (scrollY st - by_offset t) Auto st)
      in if has_replaceState st1 then st1\<lparr>location_hash := hash t\<rparr> else st1)"

definition onNavLinkClick :: "click \<Rightarrow> page \<Rightarrow> page outcome" where
  "onNavLinkClick e st =
     (if \<not> currentTarget e then Returned st
      else
        let st1 = st\<lparr>default_prevented := True\<rparr>
        in case href e of
             None \<Rightarrow> Returned st1
           | Some [] \<Rightarrow> Returned st1
           | Some (ch # rest) \<Rightarrow>
               if ch \<noteq> CHR ''#'' then Returned st1
               else
                 case querySelector st1 (ch # rest) of
                   Invalid_selector \<Rightarrow> Threw SyntaxError st1
                 | No_match \<Rightarrow>
                     Returned (st1\<lparr>console := console st1 @
                                 [''Nav target not found for '' @ ch # rest]\<rparr>)
                 | Match doc_top \<Rightarrow>
                     let (sb, off) = getSidebarAndOffset st1;
                         st2 = scrollIntoView doc_top st1;
                         st3 = st2\<lparr>timers := timers st2 @
                                 [\<lparr>delay = 320, by_offset = off, hash = ch # rest\<rparr>]\<rparr>
                     in Returned (close_sidebar st3))"

text \<open>The pending timers fire, in the order in which they were set, on the page as it is.\<close>

definition fire_timers :: "page \<Rightarrow> page" where
  "fire_timers st = foldl (\<lambda>s t. fire t s) (st\<lparr>timers := []\<rparr>) (timers st)"

text \<open>
  What follows a click: the smooth scroll that the handler started has brought the page to
  the position \<open>p\<close> when the pending timers fire, and the scroll under way after that comes
  to rest.
\<close>

definition come_to_rest :: "real \<Rightarrow> page \<Rightarrow> page" where
  "come_to_rest p st = arrive (fire_timers (progress p st))"

subsection \<open>The toggle button\<close>

text \<open>
  \<^verbatim>\<open>main.js\<close> lines 50 to 53: \<^verbatim>\<open>sidebar.classList\<close> is read without a test, a
  TypeError when \<^verbatim>\<open>getElementById('sidebar')\<close> is null.
\<close>

definition sidebarToggle_click_main :: "page \<Rightarrow> page outcome" where
  "sidebarToggle_click_main st =
     (case sidebar st of
        None \<Rightarrow> Threw TypeError st
      | Some sb \<Rightarrow> Returned (st\<lparr>sidebar := Some (sb\<lparr>classList := toggle (classList sb) ''open''\<rparr>)\<rparr>))"

text \<open>\<^verbatim>\<open>part_000\<close> lines 71 to 80: the same behind a test, and the focus moves when it opens.\<close>

definition sidebarToggle_click_part :: "page \<Rightarrow> page outcome" where
  "sidebarToggle_click_part st =
     (case sidebar st of
        None \<Rightarrow> Returned st
      | Some sb \<Rightarrow>
          let sb1 = sb\<lparr>classList := toggle (classList sb) ''open''\<rparr>;
              st1 = st\<lparr>sidebar := Some sb1\<rparr>
          in if contains (classList sb1) ''open'' \<and> has_nav_link sb1
             then Returned (st1\<lparr>first_link_focused := True\<rparr>)
             else Returned st1)"

text \<open>
  A click on the button: both versions add the listener only when
  \<^verbatim>\<open>getElementById('sidebarToggle')\<close> is not null.
\<close>

definition click_toggle :: "(page \<Rightarrow> page outcome) \<Rightarrow> page \<Rightarrow> page outcome" where
  "click_toggle handler st = (if sidebarToggle st then handler st else Returned st)"

section \<open>The specification's wording of the step\<close>

text \<open>
  The step as the specification words it, to be compared with \<open>step\<close>: advance the offset,
  add the half width back once when the absolute value of the offset exceeds it, write the
  transform.
\<close>

definition step_as_claimed :: "real \<Rightarrow> carousel \<Rightarrow> carousel" where
  "step_as_claimed now c =
     (let advanced = offset c - speed c * (now - lastTime c) / 1000;
          wrapped = (if \<bar>advanced\<bar> > halfWidth c then advanced + halfWidth c else advanced)
      in c\<lparr>lastTime := now,
            offset := wrapped,
            transform := Some (TranslateX_px wrapped),
            frames_requested := Suc (frames_requested c)\<rparr>)"

section \<open>Example inputs\<close>

text \<open>A carousel whose next frame, one second later, lands exactly on the half width.\<close>

definition boundary_carousel :: carousel where
  "boundary_carousel =
     \<lparr>offset = 0, speed = 40, lastTime = 0, halfWidth = 40, transform = None,
      frames_requested = 1\<rparr>"

text \<open>
  Six items of 300 pixels with a margin of 20, so a half width of 960: one frame, then a
  minute without frames (the tab in the background), then the pointer enters the track.
\<close>

definition away_carousel :: carousel where
  "away_carousel =
     run (carousel_init 0 [(300, 20), (300, 20), (300, 20), (300, 20), (300, 20), (300, 20)])
       [Frame 16, Frame 60016, MouseEnter]"

text \<open>The sources of the images of a list of items, in order.\<close>

definition image_sources :: "div_el list \<Rightarrow> string list" where
  "image_sources ds = concat (map (\<lambda>d. map src (children d)) ds)"

definition example_layout :: "div_el list \<Rightarrow> (real \<times> real) list" where
  "example_layout ds = map (\<lambda>d. (300, 20)) ds"

definition empty_track_page :: "string list option \<Rightarrow> carousel_page" where
  "empty_track_page imgs =
     \<lparr>CAROUSEL_IMAGES = imgs, track = Some \<lparr>child_items = [], listeners = []\<rparr>,
      window_listeners = [], animation = None\<rparr>"

definition trackless_page :: carousel_page where
  "trackless_page =
     \<lparr>CAROUSEL_IMAGES = Some [''a.png'', ''b.png''], track = None,
      window_listeners = [], animation = None\<rparr>"

text \<open>
  A click on the link to \<^verbatim>\<open>#about\<close>, on pages whose only matching element lies 900
  pixels below the top of the document: a desktop page with a vertical sidebar, a page 700
  pixels wide whose sidebar is a bar across the top, a phone page scrolled by 150 pixels,
  and a page with the toggle button but without the sidebar. Each can be scrolled by 3000
  pixels.
\<close>

definition about_click :: click where
  "about_click = \<lparr>currentTarget = True, href = Some ''#about''\<rparr>"

definition about_only :: "string \<Rightarrow> query_result" where
  "about_only sel = (if sel = ''#about'' then Match 900 else No_match)"

definition desktop_page :: page where
  "desktop_page =
     \<lparr>sidebar = Some \<lparr>position = ''fixed'', rect_width = 240, rect_height = 800,
                       classList = [''sidebar''], has_nav_link = True\<rparr>,
      sidebarToggle = True, querySelector = about_only, innerWidth = 1280, scrollY = 0,
      scroll_max = 3000, smooth_target = None, requests = [],
      scrollBy_accepts_options = True, has_replaceState = True, location_hash = [],
      timers = [], console = [], default_prevented = False, first_link_focused = False\<rparr>"

definition tablet_page :: page where
  "tablet_page =
     \<lparr>sidebar = Some \<lparr>position = ''fixed'', rect_width = 700, rect_height = 64,
                       classList = [''sidebar'', ''open''], has_nav_link = True\<rparr>,
      sidebarToggle = True, querySelector = about_only, innerWidth = 700, scrollY = 0,
      scroll_max = 3000, smooth_target = None, requests = [],
      scrollBy_accepts_options = True, has_replaceState = True, location_hash = [],
      timers = [], console = [], default_prevented = False, first_link_focused = False\<rparr>"

definition phone_page :: page where
  "phone_page =
     \<lparr>sidebar = Some \<lparr>position = ''fixed'', rect_width = 390, rect_height = 64,
                       classList = [''sidebar'', ''open''], has_nav_link = True\<rparr>,
      sidebarToggle = True, querySelector = about_only, innerWidth = 390, scrollY = 150,
      scroll_max = 3000, smooth_target = None, requests = [],
      scrollBy_accepts_options = True, has_replaceState = True, location_hash = [],
      timers = [], console = [], default_prevented = False, first_link_focused = False\<rparr>"

definition bare_page :: page where
  "bare_page =
     \<lparr>sidebar = None,
      sidebarToggle = True, querySelector = about_only, innerWidth = 1280, scrollY = 0,
      scroll_max = 3000, smooth_target = None, requests = [],
      scrollBy_accepts_options = True, has_replaceState = True, location_hash = [],
      timers = [], console = [], default_prevented = False, first_link_focused = False\<rparr>"

text \<open>The phone page with the element already at the top of the viewport.\<close>

definition phone_at_target :: page where
  "phone_at_target = phone_page\<lparr>scrollY := 900\<rparr>"


definition short_page_at_end :: page where
  "short_page_at_end = desktop_page\<lparr>scroll_max := 150, scrollY := 150\<rparr>"

text \<open>
  The carousel as the setup leaves it when \<^verbatim>\<open>performance.now()\<close> read 1000, with two
  items of 100 pixels, so a half width of 100.
\<close>

definition early_frame_carousel :: carousel where
  "early_frame_carousel = carousel_init 1000 [(100, 0), (100, 0)]"

section \<open>Properties of the carousel\<close>

lemma step_fields:
  "lastTime (step now c) = now"
  "speed (step now c) = speed c"
  "halfWidth (step now c) = halfWidth c"
  by (simp_all add: step_def Let_def)

lemma speed_handle: "speed c \<in> {0, 40} \<Longrightarrow> speed (handle c ev) \<in> {0, 40}"
  by (cases ev) (simp_all add: step_fields)

lemma speed_foldl: "speed c \<in> {0, 40} \<Longrightarrow> speed (foldl handle c evs) \<in> {0, 40}"
  by (induction evs arbitrary: c) (simp_all add: speed_handle del: insert_iff)

lemma speed_reachable: "speed (run (carousel_init t0 items) evs) \<in> {0, 40}"
  unfolding run_def by (rule speed_foldl) (simp add: carousel_init_def)

lemma speed_hover: "MouseLeave \<notin> set evs \<Longrightarrow> speed c = 0 \<Longrightarrow> speed (foldl handle c evs) = 0"
proof (induction evs arbitrary: c)
  case Nil
  then show ?case by simp
next
  case (Cons ev evs)
  from Cons.prems have "speed (handle c ev) = 0"
    by (cases ev) (simp_all add: step_fields)
  with Cons show ?case by simp
qed

text \<open>
  C1, as the code has it. Every step sets the offset to the old offset minus
  \<open>speed * (now - lastTime) / 1000\<close>, with the half width added once when the absolute value
  of that difference is greater than or equal to the half width, and writes
  \<open>translateX\<close> of the resulting offset, in pixels, to the transform of the track.
\<close>

theorem step_offset_and_transform:
  "offset (step now c) =
     (if \<bar>offset c - speed c * (now - lastTime c) / 1000\<bar> \<ge> halfWidth c
      then offset c - speed c * (now - lastTime c) / 1000 + halfWidth c
      else offset c - speed c * (now - lastTime c) / 1000)
   \<and> transform (step now c) = Some (TranslateX_px (offset (step now c)))"
  by (simp add: step_def Let_def)

theorem step_offset_and_transform_witness:
  "offset (step 1000 boundary_carousel) = 0
   \<and> transform (step 1000 boundary_carousel) = Some (TranslateX_px 0)
   \<and> offset (step 500 boundary_carousel) = -20
   \<and> transform (step 500 boundary_carousel) = Some (TranslateX_px (-20))"
  using step_offset_and_transform [of 1000 boundary_carousel]
    step_offset_and_transform [of 500 boundary_carousel]
  by (simp add: boundary_carousel_def)

text \<open>
  C1 as stated adds the half width when the absolute value exceeds it. With offset 0, speed
  40 and half width 40, a frame after 1000 milliseconds advances the offset to \<open>-40\<close>, whose
  absolute value does not exceed 40: the wording leaves \<open>-40\<close>, the code writes \<open>0\<close>.
\<close>

theorem step_wrap_counterexample:
  "offset (step_as_claimed 1000 boundary_carousel) = -40
   \<and> offset (step 1000 boundary_carousel) = 0
   \<and> transform (step 1000 boundary_carousel) = Some (TranslateX_px 0)"
  by (simp add: step_as_claimed_def step_def boundary_carousel_def Let_def)

text \<open>
  C6, as the code has it. From \<^verbatim>\<open>mouseenter\<close> until the next \<^verbatim>\<open>mouseleave\<close> the speed is
  zero, whatever frames and resizes happen in between. A step in that interval adds the half
  width when the absolute value of the offset is greater than or equal to it, and otherwise
  leaves the offset as it is and writes \<open>translateX\<close> of that same offset; so the offset is
  unchanged whenever its absolute value is below the half width. \<^verbatim>\<open>mouseleave\<close> sets the
  speed to 40.
\<close>

theorem hover_pauses:
  assumes "MouseLeave \<notin> set evs"
  shows "speed (run (handle c MouseEnter) evs) = 0
    \<and> offset (step now (run (handle c MouseEnter) evs)) =
        (if \<bar>offset (run (handle c MouseEnter) evs)\<bar> \<ge> halfWidth (run (handle c MouseEnter) evs)
         then offset (run (handle c MouseEnter) evs) + halfWidth (run (handle c MouseEnter) evs)
         else offset (run (handle c MouseEnter) evs))
    \<and> transform (step now (run (handle c MouseEnter) evs)) =
        Some (TranslateX_px (offset (step now (run (handle c MouseEnter) evs))))
    \<and> (\<bar>offset (run (handle c MouseEnter) evs)\<bar> < halfWidth (run (handle c MouseEnter) evs) \<longrightarrow>
         offset (step now (run (handle c MouseEnter) evs)) = offset (run (handle c MouseEnter) evs)
       \<and> transform (step now (run (handle c MouseEnter) evs)) =
           Some (TranslateX_px (offset (run (handle c MouseEnter) evs))))
    \<and> speed (handle (run (handle c MouseEnter) evs) MouseLeave) = 40"
proof -
  let ?h = "run (handle c MouseEnter) evs"
  have s: "speed ?h = 0"
    unfolding run_def using assms by (rule speed_hover) simp
  have o: "offset (step now ?h) =
      (if \<bar>offset ?h\<bar> \<ge> halfWidth ?h then offset ?h + halfWidth ?h else offset ?h)"
    using s by (simp add: step_def Let_def)
  have t: "transform (step now ?h) = Some (TranslateX_px (offset (step now ?h)))"
    by (simp add: step_def Let_def)
  have l: "speed (handle ?h MouseLeave) = 40"
    by simp
  from s o t l show ?thesis by simp
qed

theorem hover_pauses_witness:
  "speed (run (handle (step 500 boundary_carousel) MouseEnter) [Frame 516, Frame 532]) = 0
   \<and> offset (run (handle (step 500 boundary_carousel) MouseEnter) [Frame 516, Frame 532]) = -20
   \<and> offset (step 548 (run (handle (step 500 boundary_carousel) MouseEnter)
        [Frame 516, Frame 532])) = -20
   \<and> transform (step 548 (run (handle (step 500 boundary_carousel) MouseEnter)
        [Frame 516, Frame 532])) = Some (TranslateX_px (-20))
   \<and> speed (handle (run (handle (step 500 boundary_carousel) MouseEnter)
        [Frame 516, Frame 532]) MouseLeave) = 40"
proof -
  have e: "MouseLeave \<notin> set [Frame 516, Frame 532]"
    by simp
  have "offset (run (handle (step 500 boundary_carousel) MouseEnter) [Frame 516, Frame 532]) = -20"
    "halfWidth (run (handle (step 500 boundary_carousel) MouseEnter) [Frame 516, Frame 532]) = 40"
    by (simp_all add: run_def step_def Let_def boundary_carousel_def)
  then show ?thesis
    using hover_pauses [OF e, of "step 500 boundary_carousel" 548] by simp
qed

text \<open>
  C6 as stated has every step of the hover interval leave the offset unchanged. After a
  minute without frames the single addition of the half width leaves the offset at
  \<open>-1440.64\<close>, beyond the half width 960; the pointer enters, the speed is zero, and the next
  step moves the offset to \<open>-480.64\<close>.
\<close>

theorem hover_step_counterexample:
  "speed away_carousel = 0
   \<and> offset away_carousel = -1440.64
   \<and> offset (step 60032 away_carousel) = -480.64
   \<and> transform (step 60032 away_carousel) = Some (TranslateX_px (-480.64))"
  by (simp add: away_carousel_def run_def carousel_init_def getHalfWidth_def step_def Let_def)

text \<open>
  C9, as the code has it. The step keeps the offset in the half-open interval from
  \<open>- halfWidth\<close> (excluded) to \<open>0\<close> (included), when it starts there, the half width is
  positive and the advance \<open>speed * dt\<close> of this frame is at least 0 and smaller than the
  half width.
\<close>

theorem step_keeps_offset_in_range:
  assumes "- halfWidth c < offset c" and "offset c \<le> 0"
    and "0 < halfWidth c"
    and "0 \<le> speed c * ((now - lastTime c) / 1000)"
    and "speed c * ((now - lastTime c) / 1000) < halfWidth c"
  shows "- halfWidth (step now c) < offset (step now c) \<and> offset (step now c) \<le> 0"
  using assms by (auto simp: step_def Let_def abs_if)

theorem step_keeps_offset_in_range_witness:
  "- halfWidth (step 1016 \<lparr>offset = -299.5, speed = 40, lastTime = 1000, halfWidth = 300,
        transform = None, frames_requested = 1\<rparr>)
     < offset (step 1016 \<lparr>offset = -299.5, speed = 40, lastTime = 1000, halfWidth = 300,
        transform = None, frames_requested = 1\<rparr>)
   \<and> offset (step 1016 \<lparr>offset = -299.5, speed = 40, lastTime = 1000, halfWidth = 300,
        transform = None, frames_requested = 1\<rparr>) \<le> 0
   \<and> offset (step 1016 \<lparr>offset = -299.5, speed = 40, lastTime = 1000, halfWidth = 300,
        transform = None, frames_requested = 1\<rparr>) = -0.14"
  using step_keeps_offset_in_range [of "\<lparr>offset = -299.5, speed = 40, lastTime = 1000,
        halfWidth = 300, transform = None, frames_requested = 1\<rparr>" 1016]
  by (simp add: step_def Let_def)

text \<open>
  C9 as stated asks only that \<open>speed * dt\<close> be smaller than the half width. The setup
  reads \<^verbatim>\<open>performance.now()\<close> as 1000 and the first frame carries the timestamp 990:
  the offset 0 lies in the interval, the half width is 100, \<open>speed * dt\<close> is \<open>-0.4\<close>, and the
  step leaves the offset at \<open>0.4\<close>, above 0.
\<close>

theorem early_frame_counterexample:
  "- halfWidth early_frame_carousel < offset early_frame_carousel
   \<and> offset early_frame_carousel \<le> 0
   \<and> 0 < halfWidth early_frame_carousel
   \<and> speed early_frame_carousel * ((990 - lastTime early_frame_carousel) / 1000)
       < halfWidth early_frame_carousel
   \<and> offset (run early_frame_carousel [Frame 990]) = 0.4
   \<and> \<not> offset (step 990 early_frame_carousel) \<le> 0"
  by (simp add: early_frame_carousel_def carousel_init_def getHalfWidth_def run_def step_def
      Let_def)

section \<open>Properties of the carousel setup\<close>

lemma foldl_append_item:
  "child_items (foldl append_item t xs) = child_items t @ map make_item xs"
  "listeners (foldl append_item t xs) = listeners t"
  by (induction xs arbitrary: t) (simp_all add: append_item_def)

lemma image_sources_make_item: "image_sources (map make_item xs) = xs"
  by (induction xs) (simp_all add: image_sources_def make_item_def)

lemma count_list_append: "count_list (xs @ ys) u = count_list xs u + count_list ys u"
  by (induction xs) simp_all

text \<open>
  C7. When the hosting page does not define \<^verbatim>\<open>CAROUSEL_IMAGES\<close>, or defines it as the empty
  list, or has no track element, the setup changes nothing: no item is appended, no
  animation frame is requested, no listener is added to the track or the window.
\<close>

theorem setup_skipped:
  assumes "CAROUSEL_IMAGES p = None \<or> CAROUSEL_IMAGES p = Some [] \<or> track p = None"
  shows "carousel_setup t0 layout p = p"
  using assms by (auto simp: carousel_setup_def split: option.splits)

theorem setup_skipped_witness:
  "carousel_setup 5 example_layout (empty_track_page None) = empty_track_page None
   \<and> carousel_setup 5 example_layout (empty_track_page (Some [])) = empty_track_page (Some [])
   \<and> carousel_setup 5 example_layout trackless_page = trackless_page"
  using setup_skipped [of "empty_track_page None" 5 example_layout]
    setup_skipped [of "empty_track_page (Some [])" 5 example_layout]
    setup_skipped [of trackless_page 5 example_layout]
  by (simp add: empty_track_page_def trackless_page_def)

text \<open>
  C8. With a track and a list of \<open>n > 0\<close> images, the setup appends exactly \<open>2 * n\<close> items
  after the children the track already has; item \<open>i\<close> is a \<^verbatim>\<open>div.carousel-item\<close> with one
  \<^verbatim>\<open>img\<close> whose source is \<open>images ! (i mod n)\<close>. So every entry of the list appears twice,
  once in each half: a URL that the list holds \<open>k\<close> times is the source of \<open>2 * k\<close> images.
\<close>

theorem setup_appends_images_twice:
  assumes "track p = Some t" and "CAROUSEL_IMAGES p = Some images" and "images \<noteq> []"
  shows "\<exists>t' appended.
      track (carousel_setup t0 layout p) = Some t'
    \<and> child_items t' = child_items t @ appended
    \<and> length appended = 2 * length images
    \<and> (\<forall>i < 2 * length images.
          appended ! i =
            \<lparr>className = ''carousel-item'',
             children = [\<lparr>src = images ! (i mod length images), alt = ''Carousel image''\<rparr>]\<rparr>)
    \<and> (\<forall>u. count_list (image_sources appended) u = 2 * count_list images u)"
proof -
  let ?n = "length images"
  let ?app = "map make_item (images @ images)"
  let ?t1 = "foldl append_item t (images @ images)"
  let ?t2 = "?t1\<lparr>listeners := listeners ?t1 @ [''mouseenter'', ''mouseleave'']\<rparr>"
  have tr: "track (carousel_setup t0 layout p) = Some ?t2"
    using assms by (simp add: carousel_setup_def Let_def)
  have ch: "child_items ?t2 = child_items t @ ?app"
    by (simp add: foldl_append_item)
  have len: "length ?app = 2 * ?n" by simp
  have nth: "?app ! i =
        \<lparr>className = ''carousel-item'',
         children = [\<lparr>src = images ! (i mod ?n), alt = ''Carousel image''\<rparr>]\<rparr>"
    if "i < 2 * ?n" for i
  proof (cases "i < ?n")
    case True
    then show ?thesis by (simp add: nth_append make_item_def)
  next
    case False
    with that have "i mod ?n = i - ?n"
      by (simp add: mod_if)
    with False that show ?thesis
      by (simp add: nth_append make_item_def del: map_append)
  qed
  have cnt: "count_list (image_sources ?app) u = 2 * count_list images u" for u
    by (simp add: image_sources_make_item count_list_append del: map_append)
  from tr ch len nth cnt show ?thesis by blast
qed

theorem setup_appends_images_twice_witness:
  "\<exists>t' appended.
      track (carousel_setup 5 example_layout (empty_track_page (Some [''a.png'', ''b.png'']))) = Some t'
    \<and> child_items t' = [] @ appended
    \<and> length appended = 4
    \<and> appended ! 3 = \<lparr>className = ''carousel-item'',
             children = [\<lparr>src = ''b.png'', alt = ''Carousel image''\<rparr>]\<rparr>
    \<and> count_list (image_sources appended) ''a.png'' = 2"
proof -
  have "track (empty_track_page (Some [''a.png'', ''b.png''])) = Some \<lparr>child_items = [], listeners = []\<rparr>"
    by (simp add: empty_track_page_def)
  moreover have "CAROUSEL_IMAGES (empty_track_page (Some [''a.png'', ''b.png''])) = Some [''a.png'', ''b.png'']"
    by (simp add: empty_track_page_def)
  ultimately obtain t' appended where
    h: "track (carousel_setup 5 example_layout (empty_track_page (Some [''a.png'', ''b.png'']))) = Some t'"
      "child_items t' = child_items \<lparr>child_items = [], listeners = []\<rparr> @ appended"
      "length appended = 2 * length [''a.png'', ''b.png'']"
      "\<forall>i < 2 * length [''a.png'', ''b.png''].
          appended ! i =
            \<lparr>className = ''carousel-item'',
             children = [\<lparr>src = [''a.png'', ''b.png''] ! (i mod length [''a.png'', ''b.png'']), alt = ''Carousel image''\<rparr>]\<rparr>"
      "\<forall>u. count_list (image_sources appended) u = 2 * count_list [''a.png'', ''b.png''] u"
    using setup_appends_images_twice [of "empty_track_page (Some [''a.png'', ''b.png''])"
        "\<lparr>child_items = [], listeners = []\<rparr>" "[''a.png'', ''b.png'']" 5 example_layout]
    by blast
  have "(3::nat) mod length [''a.png'', ''b.png''] = 1"
    by (simp add: numeral_2_eq_2 [symmetric])
  with h(4) [rule_format, of 3]
  have "appended ! 3 = \<lparr>className = ''carousel-item'',
             children = [\<lparr>src = ''b.png'', alt = ''Carousel image''\<rparr>]\<rparr>"
    by simp
  moreover from h(5) have "count_list (image_sources appended) ''a.png'' = 2"
    by simp
  ultimately show ?thesis using h(1,2,3) by simp
qed

section \<open>Properties of the navigation links\<close>

lemma close_sidebar_fields:
  "scrollY (close_sidebar st) = scrollY st"
  "timers (close_sidebar st) = timers st"
  "requests (close_sidebar st) = requests st"
  "smooth_target (close_sidebar st) = smooth_target st"
  "scroll_max (close_sidebar st) = scroll_max st"
  "scrollBy_accepts_options (close_sidebar st) = scrollBy_accepts_options st"
  by (simp_all add: close_sidebar_def split: option.splits)

lemma close_sidebar_sidebar:
  "sidebar (close_sidebar st) =
     (case sidebar st of
        None \<Rightarrow> None
      | Some sb \<Rightarrow> Some (sb\<lparr>classList := removeAll ''open'' (classList sb)\<rparr>))"
  by (simp add: close_sidebar_def contains_def remove_token_def split: option.splits)

lemma getSidebarAndOffset_prevented:
  "getSidebarAndOffset (st\<lparr>default_prevented := b\<rparr>) = getSidebarAndOffset st"
  by (simp add: getSidebarAndOffset_def matchMedia_max_width_def split: option.splits)

lemma offset_main_prevented: "offset_main (st\<lparr>default_prevented := b\<rparr>) = offset_main st"
  by (simp add: offset_main_def isTopBar_main_def split: option.splits)

lemma offset_main_cases:
  "offset_main st =
     (case sidebar st of
        None \<Rightarrow> 12
      | Some sb \<Rightarrow>
          if position sb = ''fixed'' \<and> rect_width sb \<ge> innerWidth st - 1
          then rect_height sb + 8 else 12)"
  by (simp add: offset_main_def isTopBar_main_def split: option.splits)

lemma getSidebarAndOffset_cases:
  "snd (getSidebarAndOffset st) =
     (case sidebar st of
        None \<Rightarrow> 12
      | Some sb \<Rightarrow> if innerWidth st \<le> 640 then rect_height sb + 8 else 12)"
  by (simp add: getSidebarAndOffset_def matchMedia_max_width_def split: option.splits)

lemma offsets_agree:
  assumes "\<forall>sb. sidebar st = Some sb \<longrightarrow> isTopBar_main sb st = matchMedia_max_width 640 st"
  shows "offset_main st = snd (getSidebarAndOffset st)"
  using assms by (simp add: offset_main_def getSidebarAndOffset_def split: option.splits)

lemma main_on_match:
  assumes "href e = Some h" and "querySelector st h = Match doc_top"
  shows "nav_link_click_main e st =
    Returned (close_sidebar
      (scrollTo (doc_top - offset_main st) Smooth (st\<lparr>default_prevented := True\<rparr>)))"
  using assms by (simp add: nav_link_click_main_def Let_def rect_top_def offset_main_prevented)

lemma part_on_match:
  assumes "currentTarget e" and "href e = Some (CHR ''#'' # r)"
    and "querySelector st (CHR ''#'' # r) = Match doc_top"
  shows "onNavLinkClick e st =
    Returned (close_sidebar
      ((scrollIntoView doc_top (st\<lparr>default_prevented := True\<rparr>))
         \<lparr>timers := timers st @
            [\<lparr>delay = 320, by_offset = snd (getSidebarAndOffset st), hash = CHR ''#'' # r\<rparr>]\<rparr>))"
proof -
  have "timers (scrollIntoView doc_top (st\<lparr>default_prevented := True\<rparr>)) = timers st"
    by (simp add: scrollIntoView_def start_scroll_def)
  with assms show ?thesis
    by (simp add: onNavLinkClick_def Let_def getSidebarAndOffset_prevented split: prod.splits)
qed

lemma main_requests:
  assumes "href e = Some h" and "querySelector st h = Match doc_top"
  shows "requests (page_of (nav_link_click_main e st)) =
      requests st @ [ScrollTo (doc_top - offset_main st) Smooth]"
    and "timers (page_of (nav_link_click_main e st)) = timers st"
    and "smooth_target (page_of (nav_link_click_main e st)) =
      Some (clamp_scroll st (doc_top - offset_main st))"
    and "scrollY (page_of (nav_link_click_main e st)) = scrollY st"
    and "thrown (nav_link_click_main e st) = None"
  by (simp_all add: main_on_match [OF assms] close_sidebar_fields scrollTo_def start_scroll_def
      clamp_scroll_def)

lemma part_requests:
  assumes "currentTarget e" and "href e = Some (CHR ''#'' # r)"
    and "querySelector st (CHR ''#'' # r) = Match doc_top"
  shows "requests (page_of (onNavLinkClick e st)) = requests st @ [ScrollIntoView doc_top]"
    and "timers (page_of (onNavLinkClick e st)) = timers st @
      [\<lparr>delay = 320, by_offset = snd (getSidebarAndOffset st), hash = CHR ''#'' # r\<rparr>]"
    and "smooth_target (page_of (onNavLinkClick e st)) = Some (clamp_scroll st doc_top)"
    and "scrollY (page_of (onNavLinkClick e st)) = scrollY st"
    and "scroll_max (page_of (onNavLinkClick e st)) = scroll_max st"
    and "thrown (onNavLinkClick e st) = None"
  by (simp_all add: part_on_match [OF assms] close_sidebar_fields scrollIntoView_def
      start_scroll_def clamp_scroll_def rect_top_def)

lemma fire_requests:
  "requests (fire t s) = requests s @
     [if scrollBy_accepts_options s then ScrollBy (- by_offset t) Smooth
      else ScrollTo (scrollY s - by_offset t) Auto]"
  by (simp add: fire_def Let_def scrollBy_def scrollTo_def start_scroll_def)

lemma arrive_fire: "scrollY (arrive (fire t s)) = clamp_scroll s (scrollY s - by_offset t)"
  by (simp add: fire_def Let_def scrollBy_def scrollTo_def start_scroll_def arrive_def
      clamp_scroll_def)

lemma fire_sidebar: "sidebar (fire t s) = sidebar s"
  by (simp add: fire_def Let_def scrollBy_def scrollTo_def start_scroll_def split: behavior.splits)

lemma progress_fields:
  "timers (progress p s) = timers s"
  "sidebar (progress p s) = sidebar s"
  "scroll_max (progress p s) = scroll_max s"
  "smooth_target (progress p s) = smooth_target s"
  by (simp_all add: progress_def split: option.splits)

lemma progress_stays: "scrollY s = p \<Longrightarrow> scrollY (progress p s) = p"
  by (simp add: progress_def split: option.splits)

lemma arrive_sidebar: "sidebar (arrive s) = sidebar s"
  by (simp add: arrive_def split: option.splits)

lemma arrive_scrollY:
  "scrollY (arrive s) = (case smooth_target s of None \<Rightarrow> scrollY s | Some d \<Rightarrow> d)"
  by (simp add: arrive_def split: option.splits)

lemma fire_timers_none: "timers s = [] \<Longrightarrow> fire_timers s = s\<lparr>timers := []\<rparr>"
  by (simp add: fire_timers_def)

lemma fire_timers_one: "timers s = [t] \<Longrightarrow> fire_timers s = fire t (s\<lparr>timers := []\<rparr>)"
  by (simp add: fire_timers_def)

lemma clamp_scroll_timers: "clamp_scroll (s\<lparr>timers := ts\<rparr>) y = clamp_scroll s y"
  by (simp add: clamp_scroll_def)

lemma clamp_scroll_cong: "scroll_max s = scroll_max s' \<Longrightarrow> clamp_scroll s y = clamp_scroll s' y"
  by (simp add: clamp_scroll_def)

text \<open>After a click that \<^verbatim>\<open>main.js\<close> handles the page rests at the clamped destination.\<close>

lemma main_comes_to_rest:
  assumes "href e = Some h" and "querySelector st h = Match doc_top" and "timers st = []"
  shows "scrollY (come_to_rest p (page_of (nav_link_click_main e st))) =
      clamp_scroll st (doc_top - offset_main st)"
proof -
  let ?m = "page_of (nav_link_click_main e st)"
  have "timers (progress p ?m) = []"
    using assms(3) by (simp add: progress_fields main_requests(2) [OF assms(1,2)])
  then have "come_to_rest p ?m = arrive ((progress p ?m)\<lparr>timers := []\<rparr>)"
    by (simp add: come_to_rest_def fire_timers_none)
  then show ?thesis
    by (simp add: arrive_scrollY progress_fields main_requests(3) [OF assms(1,2)])
qed

text \<open>
  After a click that \<^verbatim>\<open>part_000\<close> handles the page rests at the position it had when the
  timer fired, minus the offset, clamped.
\<close>

lemma part_comes_to_rest:
  assumes "currentTarget e" and "href e = Some (CHR ''#'' # r)"
    and "querySelector st (CHR ''#'' # r) = Match doc_top" and "timers st = []"
  shows "scrollY (come_to_rest p (page_of (onNavLinkClick e st))) =
      clamp_scroll st (scrollY (progress p (page_of (onNavLinkClick e st)))
        - snd (getSidebarAndOffset st))"
proof -
  let ?p = "page_of (onNavLinkClick e st)"
  let ?t = "\<lparr>delay = 320, by_offset = snd (getSidebarAndOffset st), hash = CHR ''#'' # r\<rparr>"
  have "timers (progress p ?p) = [?t]"
    using assms(4) by (simp add: progress_fields part_requests(2) [OF assms(1-3)])
  then have "come_to_rest p ?p = arrive (fire ?t ((progress p ?p)\<lparr>timers := []\<rparr>))"
    by (simp add: come_to_rest_def fire_timers_one)
  moreover have "clamp_scroll (progress p ?p) y = clamp_scroll st y" for y
    by (rule clamp_scroll_cong) (simp add: progress_fields part_requests(5) [OF assms(1-3)])
  ultimately show ?thesis
    by (simp add: arrive_fire clamp_scroll_timers)
qed

lemma come_to_rest_sidebar: "timers s = [] \<or> (\<exists>t. timers s = [t]) \<Longrightarrow>
    sidebar (come_to_rest p s) = sidebar s"
  by (auto simp: come_to_rest_def arrive_sidebar fire_timers_none fire_timers_one fire_sidebar
      progress_fields)




text \<open>
  C4, as the code has it. For a click on a link whose \<^verbatim>\<open>href\<close> starts with \<^verbatim>\<open>#\<close> and
  resolves to an element, the handler of \<^verbatim>\<open>part_000\<close> sets exactly one timer, with a delay
  of 320 milliseconds, whose callback scrolls by minus the offset; the handler of
  \<^verbatim>\<open>main.js\<close> sets no timer and scrolls at once to the destination with the offset
  already subtracted.
\<close>

theorem timer_only_in_part:
  assumes "currentTarget e" and "href e = Some (CHR ''#'' # r)"
    and "querySelector st (CHR ''#'' # r) = Match doc_top"
  shows "thrown (onNavLinkClick e st) = None
    \<and> timers (page_of (onNavLinkClick e st)) =
        timers st @ [\<lparr>delay = 320, by_offset = snd (getSidebarAndOffset st), hash = CHR ''#'' # r\<rparr>]
    \<and> requests (page_of (onNavLinkClick e st)) = requests st @ [ScrollIntoView doc_top]
    \<and> (\<forall>s. requests (fire \<lparr>delay = 320, by_offset = snd (getSidebarAndOffset st),
                  hash = CHR ''#'' # r\<rparr> s) =
              requests s @
                [if scrollBy_accepts_options s
                 then ScrollBy (- snd (getSidebarAndOffset st)) Smooth
                 else ScrollTo (scrollY s - snd (getSidebarAndOffset st)) Auto])
    \<and> (\<forall>s. scrollY (arrive (fire \<lparr>delay = 320, by_offset = snd (getSidebarAndOffset st),
                  hash = CHR ''#'' # r\<rparr> s)) =
              clamp_scroll s (scrollY s - snd (getSidebarAndOffset st)))
    \<and> thrown (nav_link_click_main e st) = None
    \<and> timers (page_of (nav_link_click_main e st)) = timers st
    \<and> requests (page_of (nav_link_click_main e st)) =
        requests st @ [ScrollTo (doc_top - offset_main st) Smooth]"
  by (simp add: part_requests [OF assms] main_requests [OF assms(2,3)] fire_requests arrive_fire)

theorem timer_only_in_part_witness:
  "thrown (onNavLinkClick about_click desktop_page) = None
   \<and> timers (page_of (onNavLinkClick about_click desktop_page)) =
        [\<lparr>delay = 320, by_offset = 12, hash = ''#about''\<rparr>]
   \<and> requests (page_of (onNavLinkClick about_click desktop_page)) = [ScrollIntoView 900]
   \<and> timers (page_of (nav_link_click_main about_click desktop_page)) = []
   \<and> requests (page_of (nav_link_click_main about_click desktop_page)) = [ScrollTo 888 Smooth]"
proof -
  have h: "currentTarget about_click" "href about_click = Some (CHR ''#'' # ''about'')"
    "querySelector desktop_page (CHR ''#'' # ''about'') = Match 900"
    by (simp_all add: about_click_def desktop_page_def about_only_def)
  have "snd (getSidebarAndOffset desktop_page) = 12" "offset_main desktop_page = 12"
    "timers desktop_page = []" "requests desktop_page = []"
    by (simp_all add: getSidebarAndOffset_def matchMedia_max_width_def offset_main_def
        isTopBar_main_def desktop_page_def)
  then show ?thesis
    using timer_only_in_part [OF h] by simp
qed

text \<open>
  C4 as stated has every version set the timer. On the desktop page the handler of
  \<^verbatim>\<open>main.js\<close> handles the click, asks for a scroll to 888 and leaves no timer pending.
\<close>

theorem no_timer_in_main_counterexample:
  "thrown (nav_link_click_main about_click desktop_page) = None
   \<and> requests (page_of (nav_link_click_main about_click desktop_page)) = [ScrollTo 888 Smooth]
   \<and> timers (page_of (nav_link_click_main about_click desktop_page)) = []"
  by (simp add: nav_link_click_main_def about_click_def desktop_page_def about_only_def Let_def
      offset_main_def isTopBar_main_def rect_top_def scrollTo_def start_scroll_def
      close_sidebar_def contains_def)

text \<open>
  C5, as the code has it. For a click on a link whose \<^verbatim>\<open>href\<close> starts with \<^verbatim>\<open>#\<close>, on a
  page with no timer pending, both handlers throw or return alike and leave the same
  sidebar. When the \<^verbatim>\<open>href\<close> resolves to no element neither scrolls. When it resolves to an
  element, \<^verbatim>\<open>main.js\<close> comes to rest at the element's position in the document minus its
  offset, clamped to what the document allows, and \<^verbatim>\<open>part_000\<close> at the position the page
  has when the timer fires minus its offset, clamped; the two are the same position when
  the page has reached the element by the time the timer fires and the two tests for a top
  bar agree (or there is no sidebar).
\<close>

theorem handlers_agree:
  assumes "currentTarget e" and "href e = Some (CHR ''#'' # r)" and "timers st = []"
  shows "thrown (onNavLinkClick e st) = thrown (nav_link_click_main e st)
    \<and> sidebar (come_to_rest p (page_of (onNavLinkClick e st)))
        = sidebar (come_to_rest p (page_of (nav_link_click_main e st)))
    \<and> ((\<forall>d. querySelector st (CHR ''#'' # r) \<noteq> Match d) \<longrightarrow>
         requests (page_of (onNavLinkClick e st)) = requests st
       \<and> requests (page_of (nav_link_click_main e st)) = requests st
       \<and> scrollY (come_to_rest p (page_of (onNavLinkClick e st)))
           = scrollY (come_to_rest p (page_of (nav_link_click_main e st))))
    \<and> (\<forall>d. querySelector st (CHR ''#'' # r) = Match d \<longrightarrow>
         scrollY (come_to_rest p (page_of (nav_link_click_main e st)))
           = clamp_scroll st (d - offset_main st)
       \<and> scrollY (come_to_rest p (page_of (onNavLinkClick e st)))
           = clamp_scroll st (scrollY (progress p (page_of (onNavLinkClick e st)))
               - snd (getSidebarAndOffset st))
       \<and> (scrollY (progress p (page_of (onNavLinkClick e st))) = d
           \<and> (\<forall>sb. sidebar st = Some sb \<longrightarrow>
                 isTopBar_main sb st = matchMedia_max_width 640 st) \<longrightarrow>
           scrollY (come_to_rest p (page_of (onNavLinkClick e st)))
             = scrollY (come_to_rest p (page_of (nav_link_click_main e st)))))"
proof (cases "querySelector st (CHR ''#'' # r)")
  case Invalid_selector
  with assms show ?thesis
    by (simp add: onNavLinkClick_def nav_link_click_main_def Let_def)
next
  case No_match
  with assms show ?thesis
    by (simp add: onNavLinkClick_def nav_link_click_main_def Let_def come_to_rest_def
        progress_def fire_timers_def arrive_def split: option.splits)
next
  case (Match doc_top)
  let ?p = "page_of (onNavLinkClick e st)"
  let ?m = "page_of (nav_link_click_main e st)"
  note pr = part_requests [OF assms(1,2) Match]
  note mr = main_requests [OF assms(2) Match]
  have sm: "scrollY (come_to_rest p ?m) = clamp_scroll st (doc_top - offset_main st)"
    using assms(2) Match assms(3) by (rule main_comes_to_rest)
  have sp: "scrollY (come_to_rest p ?p) =
      clamp_scroll st (scrollY (progress p ?p) - snd (getSidebarAndOffset st))"
    using assms(1,2) Match assms(3) by (rule part_comes_to_rest)
  have "sidebar ?p = sidebar ?m"
    by (simp add: part_on_match [OF assms(1,2) Match] main_on_match [OF assms(2) Match]
        close_sidebar_sidebar scrollIntoView_def scrollTo_def start_scroll_def)
  moreover have "sidebar (come_to_rest p ?p) = sidebar ?p"
    by (rule come_to_rest_sidebar) (simp add: pr(2) assms(3))
  moreover have "sidebar (come_to_rest p ?m) = sidebar ?m"
    by (rule come_to_rest_sidebar) (simp add: mr(2) assms(3))
  ultimately have sb: "sidebar (come_to_rest p ?p) = sidebar (come_to_rest p ?m)"
    by simp
  have th: "thrown (onNavLinkClick e st) = thrown (nav_link_click_main e st)"
    by (simp add: pr(6) mr(5))
  have eq: "scrollY (come_to_rest p ?p) = scrollY (come_to_rest p ?m)"
    if "scrollY (progress p ?p) = doc_top"
      "\<forall>sb. sidebar st = Some sb \<longrightarrow> isTopBar_main sb st = matchMedia_max_width 640 st"
    using sm sp that(1) offsets_agree [OF that(2)] by simp
  from th sb sm sp eq Match show ?thesis by simp
qed

theorem handlers_agree_witness:
  "thrown (onNavLinkClick about_click phone_at_target) = None
   \<and> sidebar (come_to_rest 900 (page_of (onNavLinkClick about_click phone_at_target)))
        = sidebar (come_to_rest 900 (page_of (nav_link_click_main about_click phone_at_target)))
   \<and> scrollY (come_to_rest 900 (page_of (nav_link_click_main about_click phone_at_target))) = 828
   \<and> scrollY (come_to_rest 900 (page_of (onNavLinkClick about_click phone_at_target))) = 828"
proof -
  have h: "currentTarget about_click" "href about_click = Some (CHR ''#'' # ''about'')"
    "timers phone_at_target = []"
    by (simp_all add: about_click_def phone_at_target_def phone_page_def)
  have q: "querySelector phone_at_target (CHR ''#'' # ''about'') = Match 900"
    by (simp add: phone_at_target_def phone_page_def about_only_def)
  have a: "\<forall>sb. sidebar phone_at_target = Some sb \<longrightarrow>
       isTopBar_main sb phone_at_target = matchMedia_max_width 640 phone_at_target"
    by (simp add: phone_at_target_def phone_page_def isTopBar_main_def matchMedia_max_width_def)
  have g: "scrollY (progress 900 (page_of (onNavLinkClick about_click phone_at_target))) = 900"
    using part_requests(4) [OF h(1,2) q]
    by (intro progress_stays) (simp add: phone_at_target_def)
  have v: "clamp_scroll phone_at_target (900 - offset_main phone_at_target) = 828"
    by (simp add: clamp_scroll_def offset_main_cases phone_at_target_def phone_page_def)
  have t: "thrown (nav_link_click_main about_click phone_at_target) = None"
    using main_requests(5) [OF h(2) q] .
  from handlers_agree [OF h, of 900] q a g v t show ?thesis
    by simp
qed

text \<open>
  C5 as stated has the two handlers leave the same scroll position. On the short page,
  scrolled to its end at 150, both versions take 12 for the offset: \<^verbatim>\<open>main.js\<close> asks for
  888 and the page stays at 150; \<^verbatim>\<open>part_000\<close> asks for the element, which the page cannot
  reach, so it has not moved when the timer fires, and the scroll by \<open>-12\<close> leaves it at 138.
\<close>

theorem handlers_differ_counterexample:
  "offset_main short_page_at_end = 12
   \<and> snd (getSidebarAndOffset short_page_at_end) = 12
   \<and> scrollY (come_to_rest 150 (page_of (nav_link_click_main about_click short_page_at_end))) = 150
   \<and> scrollY (come_to_rest 150 (page_of (onNavLinkClick about_click short_page_at_end))) = 138"
  by (simp add: nav_link_click_main_def onNavLinkClick_def about_click_def short_page_at_end_def
      desktop_page_def about_only_def Let_def offset_main_def isTopBar_main_def
      getSidebarAndOffset_def matchMedia_max_width_def rect_top_def scrollTo_def scrollBy_def
      scrollIntoView_def start_scroll_def clamp_scroll_def close_sidebar_def contains_def
      come_to_rest_def progress_def fire_timers_def fire_def arrive_def)

text \<open>On that page the position when the timer fires makes no difference.\<close>

lemma short_page_any_progress:
  "scrollY (come_to_rest p (page_of (onNavLinkClick about_click short_page_at_end))) = 138"
  by (simp add: onNavLinkClick_def about_click_def short_page_at_end_def
      desktop_page_def about_only_def Let_def
      getSidebarAndOffset_def matchMedia_max_width_def rect_top_def scrollTo_def scrollBy_def
      scrollIntoView_def start_scroll_def clamp_scroll_def close_sidebar_def contains_def
      come_to_rest_def progress_def fire_timers_def fire_def arrive_def)

text \<open>The two tests for a top bar disagree on the page 700 pixels wide.\<close>

lemma offsets_differ_on_tablet:
  "offset_main tablet_page = 72 \<and> snd (getSidebarAndOffset tablet_page) = 12"
  by (simp add: offset_main_cases getSidebarAndOffset_cases tablet_page_def)

section \<open>Properties of the toggle button\<close>

lemma contains_toggle: "contains (toggle cl tok) tok = (\<not> contains cl tok)"
  by (simp add: toggle_def contains_def remove_token_def)

lemma twice_main:
  "is_open (page_of (click_toggle sidebarToggle_click_main
      (page_of (click_toggle sidebarToggle_click_main st)))) = is_open st"
  by (cases "sidebar st")
    (simp_all add: click_toggle_def sidebarToggle_click_main_def is_open_def contains_toggle)

lemma twice_part:
  "is_open (page_of (click_toggle sidebarToggle_click_part
      (page_of (click_toggle sidebarToggle_click_part st)))) = is_open st"
  by (cases "sidebar st")
    (simp_all add: click_toggle_def sidebarToggle_click_part_def is_open_def contains_toggle Let_def)

text \<open>
  C3, at the input where it fails. On a page with the toggle button and without the
  sidebar, a click on the button makes the handler of \<^verbatim>\<open>main.js\<close> throw a TypeError; the
  handler of \<^verbatim>\<open>part_000\<close> tests for the sidebar and returns.
\<close>

theorem toggle_without_sidebar:
  "thrown (click_toggle sidebarToggle_click_main bare_page) = Some TypeError
   \<and> thrown (click_toggle sidebarToggle_click_part bare_page) = None"
  by (simp add: click_toggle_def sidebarToggle_click_main_def sidebarToggle_click_part_def bare_page_def)

text \<open>
  C10. Two clicks on the toggle button, one after the other, leave the sidebar in the class
  \<^verbatim>\<open>open\<close> exactly when it was before the first click, in both versions and from every
  page.
\<close>

theorem toggle_twice:
  "is_open (page_of (click_toggle sidebarToggle_click_main
      (page_of (click_toggle sidebarToggle_click_main st)))) = is_open st
   \<and> is_open (page_of (click_toggle sidebarToggle_click_part
      (page_of (click_toggle sidebarToggle_click_part st)))) = is_open st"
  by (simp add: twice_main twice_part)

theorem toggle_twice_witness:
  "is_open (page_of (click_toggle sidebarToggle_click_main phone_page))  = False
   \<and> is_open (page_of (click_toggle sidebarToggle_click_main
      (page_of (click_toggle sidebarToggle_click_main phone_page)))) = True
   \<and> is_open (page_of (click_toggle sidebarToggle_click_part
      (page_of (click_toggle sidebarToggle_click_part desktop_page)))) = False"
proof -
  have "is_open phone_page" "\<not> is_open desktop_page"
    by (simp_all add: is_open_def phone_page_def desktop_page_def contains_def)
  moreover have "\<not> is_open (page_of (click_toggle sidebarToggle_click_main phone_page))"
    by (simp add: is_open_def phone_page_def contains_def click_toggle_def
        sidebarToggle_click_main_def toggle_def remove_token_def)
  ultimately show ?thesis
    using toggle_twice [of phone_page] toggle_twice [of desktop_page] by simp
qed

end
